theory Spec2Isabelle
  imports Complex_Main
begin

section \<open>Strings of the source language\<close>

text \<open>
  The program is JavaScript. Its strings are sequences of 16-bit code units; the
  bulletin texts it parses are Spanish, and every character the program names in a
  pattern, a table or a keyword list lies below U+0100 (the typographic dashes of two
  patterns apart, see there). A text is modelled as a list of 8-bit characters, read as
  the code units U+0000 .. U+00FF (ISO-8859-1), so \<open>length\<close> counts what the
  source's \<open>.length\<close> counts. Characters above U+00FF are outside the model.
\<close>

definition code :: "char \<Rightarrow> nat" where
  "code c = of_char c"

definition is_digit :: "char \<Rightarrow> bool" where
  "is_digit c = (48 \<le> code c \<and> code c \<le> 57)"

text \<open>\<open>\s\<close> and \<open>trim\<close>: white space and line terminators below U+0100.\<close>

definition is_space :: "char \<Rightarrow> bool" where
  "is_space c = (code c = 32 \<or> (9 \<le> code c \<and> code c \<le> 13) \<or> code c = 160)"

definition is_word :: "char \<Rightarrow> bool" where
  "is_word c = ((97 \<le> code c \<and> code c \<le> 122) \<or> (65 \<le> code c \<and> code c \<le> 90) \<or>
     is_digit c \<or> code c = 95)"

definition is_lterm :: "char \<Rightarrow> bool" where
  "is_lterm c = (code c = 10 \<or> code c = 13)"

definition is_lower :: "char \<Rightarrow> bool" where
  "is_lower c = ((97 \<le> code c \<and> code c \<le> 122) \<or>
     (224 \<le> code c \<and> code c \<le> 254 \<and> code c \<noteq> 247))"

definition is_upper :: "char \<Rightarrow> bool" where
  "is_upper c = ((65 \<le> code c \<and> code c \<le> 90) \<or>
     (192 \<le> code c \<and> code c \<le> 222 \<and> code c \<noteq> 215))"

text \<open>
  In this range a letter and its other case differ in bit 5 only (value 32). The two
  letters whose upper case lies above U+00FF (U+00B5 and U+00FF) keep their value, and
  \<open>toUpperCase\<close> turns U+00DF into two letters S.
\<close>

fun set_bit5 :: "bool \<Rightarrow> char \<Rightarrow> char" where
  "set_bit5 b (Char b0 b1 b2 b3 b4 b5 b6 b7) = Char b0 b1 b2 b3 b4 b b6 b7"

definition to_upper_char :: "char \<Rightarrow> char" where
  "to_upper_char c = (if is_lower c then set_bit5 False c else c)"

definition to_lower_char :: "char \<Rightarrow> char" where
  "to_lower_char c = (if is_upper c then set_bit5 True c else c)"

definition toUpperCase :: "string \<Rightarrow> string" where
  "toUpperCase s = concat (map (\<lambda>c. if code c = 223 then ''SS'' else [to_upper_char c]) s)"

definition toLowerCase :: "string \<Rightarrow> string" where
  "toLowerCase s = map to_lower_char s"

definition trim :: "string \<Rightarrow> string" where
  "trim s = rev (dropWhile is_space (rev (dropWhile is_space s)))"

fun starts_with :: "string \<Rightarrow> string \<Rightarrow> bool" where
  "starts_with s [] = True"
| "starts_with [] (p # ps) = False"
| "starts_with (c # cs) (p # ps) = (c = p \<and> starts_with cs ps)"

text \<open>\<open>s.includes(t)\<close>\<close>

fun str_includes :: "string \<Rightarrow> string \<Rightarrow> bool" where
  "str_includes [] t = (t = [])"
| "str_includes (c # cs) t = (starts_with (c # cs) t \<or> str_includes cs t)"

text \<open>\<open>s.indexOf(t)\<close>, \<open>None\<close> for -1.\<close>

fun index_from :: "nat \<Rightarrow> string \<Rightarrow> string \<Rightarrow> nat option" where
  "index_from i [] t = (if t = [] then Some i else None)"
| "index_from i (c # cs) t = (if starts_with (c # cs) t then Some i else index_from (i + 1) cs t)"

definition indexOf :: "string \<Rightarrow> string \<Rightarrow> nat option" where
  "indexOf s t = index_from 0 s t"

text \<open>\<open>s.split(sep)\<close> for a separator string of one character.\<close>

fun split_char_go :: "char \<Rightarrow> string \<Rightarrow> string \<Rightarrow> string list" where
  "split_char_go d acc [] = [rev acc]"
| "split_char_go d acc (c # cs) =
     (if c = d then rev acc # split_char_go d [] cs else split_char_go d (c # acc) cs)"

definition split_char :: "char \<Rightarrow> string \<Rightarrow> string list" where
  "split_char d s = split_char_go d [] s"

text \<open>\<open>s.padStart(n, '0')\<close>\<close>

definition padStart0 :: "nat \<Rightarrow> string \<Rightarrow> string" where
  "padStart0 n s = replicate (n - length s) (CHR ''0'') @ s"

text \<open>Decimal digits of a number, as template literals print it.\<close>

fun digits_of :: "nat \<Rightarrow> nat \<Rightarrow> string" where
  "digits_of 0 n = []"
| "digits_of (Suc f) n =
     (if n < 10 then [''0123456789'' ! n]
      else digits_of f (n div 10) @ [''0123456789'' ! (n mod 10)])"

definition show_nat :: "nat \<Rightarrow> string" where
  "show_nat n = digits_of (Suc n) n"

text \<open>A value is truthy when it is a non-empty string; \<open>None\<close> is \<open>undefined\<close> or \<open>null\<close>.\<close>

definition truthy :: "string option \<Rightarrow> bool" where
  "truthy v = (case v of None \<Rightarrow> False | Some s \<Rightarrow> s \<noteq> [])"

section \<open>Regular expressions\<close>

text \<open>
  The patterns of the program are written as syntax trees and run by a backtracking
  matcher in continuation-passing style, after the matcher of the language standard:
  alternatives left to right, quantifiers greedy or lazy, an iteration of a quantifier
  that consumes nothing is rejected, a lookahead keeps its captures and gives its input
  back. No pattern of the program has a back-reference or a group under a quantifier.
\<close>

datatype cset =
    Ch char
  | Rng char char
  | Digit
  | Space
  | Word
  | Dot
  | AnyChar
  | OneOf "cset list"
  | NoneOf "cset list"

datatype rx =
    Cls cset
  | Lit string
  | Eps
  | Seq rx rx
  | Alt rx rx
  | Rep nat "nat option" bool rx
  | Grp nat rx
  | Look bool rx
  | Bol
  | Eol
  | Wb

record regexp =
  re_body :: rx
  re_i :: bool
  re_m :: bool

text \<open>
  With the flag \<open>i\<close> two characters match when their canonical forms (the upper case
  of one code unit) agree; in this range a character has at most one other case.
\<close>

fun in_cset :: "bool \<Rightarrow> cset \<Rightarrow> char \<Rightarrow> bool" where
  "in_cset ic (Ch x) c = (if ic then to_upper_char c = to_upper_char x else c = x)"
| "in_cset ic (Rng a b) c =
     (if ic then (code a \<le> code (to_upper_char c) \<and> code (to_upper_char c) \<le> code b) \<or>
                 (code a \<le> code (to_lower_char c) \<and> code (to_lower_char c) \<le> code b) \<or>
                 (code a \<le> code c \<and> code c \<le> code b)
      else code a \<le> code c \<and> code c \<le> code b)"
| "in_cset ic Digit c = is_digit c"
| "in_cset ic Space c = is_space c"
| "in_cset ic Word c = is_word c"
| "in_cset ic Dot c = (\<not> is_lterm c)"
| "in_cset ic AnyChar c = True"
| "in_cset ic (OneOf cs) c = list_ex (\<lambda>x. in_cset ic x c) cs"
| "in_cset ic (NoneOf cs) c = (\<not> list_ex (\<lambda>x. in_cset ic x c) cs)"

text \<open>
  A state of the matcher: the position, the character before it, the text from it on,
  and the captures so far (group, start, end; the latest first).
\<close>

datatype mstate =
  MState (m_pos: nat) (m_prevc: "char option") (m_rest: string) (m_caps: "(nat \<times> nat \<times> nat) list")

type_synonym cont = "mstate \<Rightarrow> mstate option"

definition advance :: "char \<Rightarrow> string \<Rightarrow> mstate \<Rightarrow> mstate" where
  "advance c cs s = MState (m_pos s + 1) (Some c) cs (m_caps s)"

definition set_caps :: "(nat \<times> nat \<times> nat) list \<Rightarrow> mstate \<Rightarrow> mstate" where
  "set_caps cs s = MState (m_pos s) (m_prevc s) (m_rest s) cs"

fun lit_match :: "bool \<Rightarrow> string \<Rightarrow> cont \<Rightarrow> mstate \<Rightarrow> mstate option" where
  "lit_match ic [] k s = k s"
| "lit_match ic (x # xs) k s =
     (case m_rest s of
        [] \<Rightarrow> None
      | c # cs \<Rightarrow> if in_cset ic (Ch x) c then lit_match ic xs k (advance c cs s) else None)"

text \<open>
  The quantifier \<open>{mn,mx}\<close> (\<open>None\<close> for no upper bound). The first argument bounds the
  number of iterations still to come: an iteration below the minimum lowers the
  minimum, any other must consume a character, so \<open>mn\<close> plus the length of the rest
  of the input is never exceeded.
\<close>

fun rep_loop :: "nat \<Rightarrow> (cont \<Rightarrow> mstate \<Rightarrow> mstate option) \<Rightarrow> nat \<Rightarrow> nat option \<Rightarrow> bool \<Rightarrow>
    cont \<Rightarrow> mstate \<Rightarrow> mstate option" where
  "rep_loop 0 m mn mx g k s = (if mn = 0 then k s else None)"
| "rep_loop (Suc f) m mn mx g k s =
    (if mx = Some 0 then k s
     else if mn \<noteq> 0 then
       m (rep_loop f m (mn - 1) (map_option (\<lambda>x. x - 1) mx) g k) s
     else
       (let p = m_pos s;
            again = (\<lambda>y. if m_pos y = p then None
                          else rep_loop f m 0 (map_option (\<lambda>x. x - 1) mx) g k y)
        in if g then (case m again s of Some e \<Rightarrow> Some e | None \<Rightarrow> k s)
           else (case k s of Some e \<Rightarrow> Some e | None \<Rightarrow> m again s)))"

definition at_wordb :: "mstate \<Rightarrow> bool" where
  "at_wordb s = ((case m_prevc s of None \<Rightarrow> False | Some c \<Rightarrow> is_word c) \<noteq>
                 (case m_rest s of [] \<Rightarrow> False | c # cs \<Rightarrow> is_word c))"

primrec rmatch :: "bool \<Rightarrow> bool \<Rightarrow> rx \<Rightarrow> cont \<Rightarrow> mstate \<Rightarrow> mstate option" where
  "rmatch ic ml (Cls cs) = (\<lambda>k s. case m_rest s of [] \<Rightarrow> None
       | c # r \<Rightarrow> if in_cset ic cs c then k (advance c r s) else None)"
| "rmatch ic ml (Lit w) = (\<lambda>k s. lit_match ic w k s)"
| "rmatch ic ml Eps = (\<lambda>k s. k s)"
| "rmatch ic ml (Seq a b) = (\<lambda>k s. rmatch ic ml a (rmatch ic ml b k) s)"
| "rmatch ic ml (Alt a b) = (\<lambda>k s. case rmatch ic ml a k s of
         Some e \<Rightarrow> Some e
       | None \<Rightarrow> rmatch ic ml b k s)"
| "rmatch ic ml (Rep mn mx g a) = (\<lambda>k s.
       rep_loop (mn + length (m_rest s)) (rmatch ic ml a) mn mx g k s)"
| "rmatch ic ml (Grp n a) = (\<lambda>k s.
       (let p = m_pos s
        in rmatch ic ml a (\<lambda>e. k (set_caps ((n, p, m_pos e) # m_caps e) e)) s))"
| "rmatch ic ml (Look b a) = (\<lambda>k s. case rmatch ic ml a Some s of
         Some e \<Rightarrow> if b then k (set_caps (m_caps e) s) else None
       | None \<Rightarrow> if b then None else k s)"
| "rmatch ic ml Bol = (\<lambda>k s. case m_prevc s of
         None \<Rightarrow> k s
       | Some c \<Rightarrow> if ml \<and> is_lterm c then k s else None)"
| "rmatch ic ml Eol = (\<lambda>k s. case m_rest s of
         [] \<Rightarrow> k s
       | c # cs \<Rightarrow> if ml \<and> is_lterm c then k s else None)"
| "rmatch ic ml Wb = (\<lambda>k s. if at_wordb s then k s else None)"

text \<open>Pattern syntax: sequences, alternatives, \<open>*\<close>, \<open>+\<close>, \<open>?\<close> and their lazy forms.\<close>

fun seqs :: "rx list \<Rightarrow> rx" where
  "seqs [] = Eps"
| "seqs [r] = r"
| "seqs (r # rs) = Seq r (seqs rs)"

fun alts :: "rx list \<Rightarrow> rx" where
  "alts [] = Look False Eps"
| "alts [r] = r"
| "alts (r # rs) = Alt r (alts rs)"

definition star :: "rx \<Rightarrow> rx" where "star r = Rep 0 None True r"
definition plus :: "rx \<Rightarrow> rx" where "plus r = Rep 1 None True r"
definition opt :: "rx \<Rightarrow> rx" where "opt r = Rep 0 (Some 1) True r"
definition lazy_star :: "rx \<Rightarrow> rx" where "lazy_star r = Rep 0 None False r"
definition lazy_plus :: "rx \<Rightarrow> rx" where "lazy_plus r = Rep 1 None False r"
definition chr :: "char \<Rightarrow> rx" where "chr c = Cls (Ch c)"
definition spaces :: rx where "spaces = star (Cls Space)"
definition spaces1 :: rx where "spaces1 = plus (Cls Space)"

definition RE :: "rx \<Rightarrow> regexp" where
  "RE r = \<lparr>re_body = r, re_i = False, re_m = False\<rparr>"
definition RE_i :: "rx \<Rightarrow> regexp" where
  "RE_i r = \<lparr>re_body = r, re_i = True, re_m = False\<rparr>"
definition RE_m :: "rx \<Rightarrow> regexp" where
  "RE_m r = \<lparr>re_body = r, re_i = False, re_m = True\<rparr>"

subsection \<open>Running a pattern on a text\<close>

record rmatch_result =
  mt_index :: nat
  mt_end :: nat
  mt_text :: string
  mt_caps :: "(nat \<times> string) list"

text \<open>\<open>match[n]\<close>: the text of group \<open>n\<close>, \<open>None\<close> when the group took no part.\<close>

definition group :: "rmatch_result \<Rightarrow> nat \<Rightarrow> string option" where
  "group m n = map_of (mt_caps m) n"

text \<open>A match that starts at position \<open>p\<close>, where the text \<open>rest\<close> begins.\<close>

definition match_at :: "regexp \<Rightarrow> nat \<Rightarrow> char option \<Rightarrow> string \<Rightarrow> rmatch_result option" where
  "match_at r p prevc rest =
     (case rmatch (re_i r) (re_m r) (re_body r) Some (MState p prevc rest []) of
        None \<Rightarrow> None
      | Some e \<Rightarrow> Some \<lparr>mt_index = p, mt_end = m_pos e, mt_text = take (m_pos e - p) rest,
          mt_caps = map (\<lambda>(n, b, e). (n, take (e - b) (drop (b - p) rest))) (m_caps e)\<rparr>)"

text \<open>The leftmost match at or after a position.\<close>

fun search_from :: "regexp \<Rightarrow> nat \<Rightarrow> char option \<Rightarrow> string \<Rightarrow> rmatch_result option" where
  "search_from r p prevc [] = match_at r p prevc []"
| "search_from r p prevc (c # cs) =
     (case match_at r p prevc (c # cs) of
        Some m \<Rightarrow> Some m
      | None \<Rightarrow> search_from r (p + 1) (Some c) cs)"

definition char_before :: "string \<Rightarrow> nat \<Rightarrow> char option" where
  "char_before s i = (if i = 0 then None else Some (s ! (i - 1)))"

text \<open>\<open>RegExpBuiltinExec\<close> from \<open>lastIndex = i\<close>; past the end of the text it fails.\<close>

definition re_exec :: "regexp \<Rightarrow> nat \<Rightarrow> string \<Rightarrow> rmatch_result option" where
  "re_exec r i s = (if length s < i then None else search_from r i (char_before s i) (drop i s))"

text \<open>\<open>r.test(s)\<close> and \<open>s.match(r)\<close> for a pattern without the flag \<open>g\<close>.\<close>

definition re_test :: "regexp \<Rightarrow> string \<Rightarrow> bool" where
  "re_test r s = (re_exec r 0 s \<noteq> None)"

definition str_match :: "regexp \<Rightarrow> string \<Rightarrow> rmatch_result option" where
  "str_match r s = re_exec r 0 s"

text \<open>
  \<open>r.test(s)\<close> for a pattern with the flag \<open>g\<close>: the search starts at the pattern's
  \<open>lastIndex\<close>, which becomes the end of the match, or 0 when there is none.
\<close>

definition re_test_g :: "regexp \<Rightarrow> string \<Rightarrow> nat \<Rightarrow> bool \<times> nat" where
  "re_test_g r s li = (case re_exec r li s of None \<Rightarrow> (False, 0) | Some m \<Rightarrow> (True, mt_end m))"

text \<open>
  All matches of a pattern with the flag \<open>g\<close>, left to right, as \<open>s.match(r)\<close>,
  \<open>s.replace(r, f)\<close> and a loop over \<open>r.exec(s)\<close> from \<open>lastIndex = 0\<close> find them. After an
  empty match \<open>match\<close> and \<open>replace\<close> step one character on; the \<open>exec\<close> loops of the
  program run patterns that cannot match the empty text.
\<close>

function all_matches_from :: "regexp \<Rightarrow> nat \<Rightarrow> string \<Rightarrow> rmatch_result list" where
  "all_matches_from r i s =
     (case re_exec r i s of
        None \<Rightarrow> []
      | Some m \<Rightarrow>
          (let j = (if mt_end m = mt_index m then mt_end m + 1 else mt_end m)
           in if i < j \<and> j \<le> length s then m # all_matches_from r j s else [m]))"
  by pat_completeness auto
termination
  by (relation "measure (\<lambda>(r, i, s). Suc (length s) - i)") auto

definition all_matches :: "regexp \<Rightarrow> string \<Rightarrow> rmatch_result list" where
  "all_matches r s = all_matches_from r 0 s"

text \<open>The text with each match replaced by the text paired with it.\<close>

fun splice :: "nat \<Rightarrow> string \<Rightarrow> (rmatch_result \<times> string) list \<Rightarrow> string" where
  "splice i s [] = drop i s"
| "splice i s ((m, t) # ms) = take (mt_index m - i) (drop i s) @ t @ splice (mt_end m) s ms"

text \<open>
  \<open>s.replace(r, t)\<close> for a pattern with the flag \<open>g\<close>, and for one without it (the
  first match only). No replacement text the program passes with a pattern has a \<open>$\<close>.
\<close>

definition replace_all :: "regexp \<Rightarrow> string \<Rightarrow> string \<Rightarrow> string" where
  "replace_all r t s = splice 0 s (map (\<lambda>m. (m, t)) (all_matches r s))"

definition replace_first :: "regexp \<Rightarrow> string \<Rightarrow> string \<Rightarrow> string" where
  "replace_first r t s =
     (case re_exec r 0 s of None \<Rightarrow> s | Some m \<Rightarrow> splice 0 s [(m, t)])"

text \<open>
  \<open>s.split(r)\<close>: the pattern is tried at each position of the text; a match that is
  empty at the start of the current piece is skipped. The patterns the program splits
  on have no groups, so no captures are spliced in.
\<close>

function split_go :: "regexp \<Rightarrow> string \<Rightarrow> nat \<Rightarrow> nat \<Rightarrow> string list" where
  "split_go r s p q =
     (if length s \<le> q then [drop p s]
      else case match_at r q (char_before s q) (drop q s) of
             None \<Rightarrow> split_go r s p (q + 1)
           | Some m \<Rightarrow>
               if mt_end m \<le> q then
                 (if p = q then split_go r s p (q + 1)
                  else take (q - p) (drop p s) # split_go r s q (q + 1))
               else take (q - p) (drop p s) #
                    split_go r s (min (mt_end m) (length s)) (min (mt_end m) (length s)))"
  by pat_completeness auto
termination
  by (relation "measure (\<lambda>(r, s, p, q). length s - q)") auto

definition split_re :: "regexp \<Rightarrow> string \<Rightarrow> string list" where
  "split_re r s =
     (if s = [] then (if match_at r 0 None [] = None then [[]] else []) else split_go r s 0 0)"

text \<open>
  \<open>s.replace(pat, t)\<close> for a string \<open>pat\<close>: the first occurrence, with the replacement
  text's \<open>$$\<close>, \<open>$&\<close>, \<open>$`\<close> and \<open>$'\<close> expanded (there are no groups to refer to).
\<close>

fun substitution :: "string \<Rightarrow> string \<Rightarrow> string \<Rightarrow> string \<Rightarrow> string" where
  "substitution pre m post [] = []"
| "substitution pre m post [c] = [c]"
| "substitution pre m post (c # d # t) =
     (if c = CHR ''$'' then
        (if d = CHR ''$'' then CHR ''$'' # substitution pre m post t
         else if d = CHR ''&'' then m @ substitution pre m post t
         else if d = CHR 0x60 then pre @ substitution pre m post t
         else if d = CHR 0x27 then post @ substitution pre m post t
         else c # substitution pre m post (d # t))
      else c # substitution pre m post (d # t))"

definition replace_str :: "string \<Rightarrow> string \<Rightarrow> string \<Rightarrow> string" where
  "replace_str pat t s =
     (case indexOf s pat of
        None \<Rightarrow> s
      | Some i \<Rightarrow> take i s @ substitution (take i s) pat (drop (i + length pat) s) t @
                  drop (i + length pat) s)"

section \<open>Dates\<close>

text \<open>
  \<open>parseInt(s)\<close> without a radix: leading white space, a sign, \<open>0x\<close> for base 16, then
  the longest run of digits; \<open>None\<close> is \<open>NaN\<close>.
\<close>

definition digit_val :: "char \<Rightarrow> nat" where
  "digit_val c = (if is_digit c then code c - 48
                  else if 97 \<le> code c \<and> code c \<le> 102 then code c - 87
                  else code c - 55)"

definition is_hex_digit :: "char \<Rightarrow> bool" where
  "is_hex_digit c = (is_digit c \<or> (97 \<le> code c \<and> code c \<le> 102) \<or> (65 \<le> code c \<and> code c \<le> 70))"

definition parseInt :: "string \<Rightarrow> int option" where
  "parseInt s =
     (let t = dropWhile is_space s;
          neg = starts_with t ''-'';
          u = (if starts_with t ''-'' \<or> starts_with t ''+'' then tl t else t);
          hex = (starts_with u ''0x'' \<or> starts_with u ''0X'');
          ds = (if hex then takeWhile is_hex_digit (drop 2 u) else takeWhile is_digit u);
          n = foldl (\<lambda>a c. a * (if hex then 16 else 10) + digit_val c) 0 ds
      in if ds = [] then None else Some (if neg then - int n else int n))"

definition dateSeparator :: regexp where
  "dateSeparator = RE (Cls (OneOf [Ch (CHR ''.''), Ch (CHR ''/''), Ch (CHR ''-'')]))"

definition formatSpanishDate :: "string option \<Rightarrow> string option" where
  "formatSpanishDate spanishDate =
     (case spanishDate of
        None \<Rightarrow> None
      | Some d \<Rightarrow>
          if d = [] then None
          else (case split_re dateSeparator d of
                  [day, month, year] \<Rightarrow>
                    (let year' =
                       (if length year = 2 then
                          (case parseInt year of
                             Some yearNum \<Rightarrow> if yearNum < 50 then ''20'' @ year else ''19'' @ year
                           | None \<Rightarrow> ''19'' @ year)
                        else year)
                     in Some (year' @ ''-'' @ padStart0 2 month @ ''-'' @ padStart0 2 day))
                | parts \<Rightarrow> Some d))"




section \<open>The segmenter\<close>

text \<open>
  \<open>smartSplitBormeEntry\<close>: four kinds of text with periods inside (abbreviations, dates,
  registry data, decimal numbers) are replaced by numbered placeholders, the text is
  split at the remaining periods, and each piece is trimmed and has the placeholders
  put back.
\<close>

definition abbreviations :: "string list" where
  "abbreviations = [''ADM'', ''ADMIN'', ''APOD'', ''APODER'', ''CONS'', ''CONSJ'', ''CONSEJERO'',
    ''PRES'', ''PRESID'', ''PRESIDENT'', ''SEC'', ''SECR'', ''SECRETARIO'', ''TES'', ''TESOR'',
    ''TESORERO'', ''VICE'', ''VICEPR'', ''VICEPRES'', ''DIR'', ''DTOR'', ''DIRECTOR'', ''GER'',
    ''GERENTE'', ''LIQ'', ''LIQUID'', ''MANCOM'', ''MANCO'', ''SOLID'', ''SOLIDA'', ''SOLIDAR'',
    ''UNICO'', CHR 0xDA # ''NICO'']"

text \<open>\<open>/\b(ADM|ADMIN|...)\.( *)/gi\<close>\<close>

definition abbrevPattern :: regexp where
  "abbrevPattern = RE_i (seqs [Wb, Grp 1 (alts (map Lit abbreviations)), chr (CHR ''.''),
     Grp 2 (star (chr (CHR '' '')))])"

text \<open>\<open>/\b\d{1,2}\.\d{1,2}\.\d{2,4}\b/g\<close>\<close>

definition datePattern :: regexp where
  "datePattern = RE (seqs [Wb, Rep 1 (Some 2) True (Cls Digit), chr (CHR ''.''),
     Rep 1 (Some 2) True (Cls Digit), chr (CHR ''.''), Rep 2 (Some 4) True (Cls Digit), Wb])"

text \<open>\<open>/[ST]\s+\d+\s*,\s*[LFH]\s+[A-Z]*\s*\d+[^.]*\([^)]*\)\./g\<close>\<close>

definition splitRegistryPattern :: regexp where
  "splitRegistryPattern = RE (seqs [Cls (OneOf [Ch (CHR ''S''), Ch (CHR ''T'')]), spaces1,
     plus (Cls Digit), spaces, chr (CHR '',''), spaces,
     Cls (OneOf [Ch (CHR ''L''), Ch (CHR ''F''), Ch (CHR ''H'')]), spaces1,
     star (Cls (Rng (CHR ''A'') (CHR ''Z''))), spaces, plus (Cls Digit),
     star (Cls (NoneOf [Ch (CHR ''.'')])), chr (CHR ''(''), star (Cls (NoneOf [Ch (CHR '')'')])),
     chr (CHR '')''), chr (CHR ''.'')])"

text \<open>\<open>/\b\d{1,3}(?:\.\d{3})*,\d{2}\b/g\<close>\<close>

definition decimalPattern :: regexp where
  "decimalPattern = RE (seqs [Wb, Rep 1 (Some 3) True (Cls Digit),
     star (Seq (chr (CHR ''.'')) (Rep 3 (Some 3) True (Cls Digit))), chr (CHR '',''),
     Rep 2 (Some 2) True (Cls Digit), Wb])"

definition placeholder :: "nat \<Rightarrow> string" where
  "placeholder n = ''###PLACEHOLDER'' @ show_nat n @ ''###''"

text \<open>
  One protecting pass: every match of the pattern, left to right, is pushed on the
  list of placeholders and replaced by the placeholder of its index.
\<close>

definition protect :: "regexp \<Rightarrow> string \<times> string list \<Rightarrow> string \<times> string list" where
  "protect r = (\<lambda>(protectedText, placeholders).
     (let ms = all_matches r protectedText
      in (splice 0 protectedText
            (map (\<lambda>(j, m). (m, placeholder (length placeholders + j))) (enumerate 0 ms)),
          placeholders @ map mt_text ms)))"

text \<open>
  The restoring loop: for each index in turn, the first occurrence of that placeholder
  in the piece is replaced by the text it stands for.
\<close>

definition restore :: "string list \<Rightarrow> string \<Rightarrow> string" where
  "restore placeholders s =
     foldl (\<lambda>restored (index, original). replace_str (placeholder index) original restored)
       s (enumerate 0 placeholders)"

definition smartSplitBormeEntry :: "string \<Rightarrow> string list" where
  "smartSplitBormeEntry fullEntry =
     (let (protectedText, placeholders) =
            protect decimalPattern (protect splitRegistryPattern
              (protect datePattern (protect abbrevPattern (fullEntry, []))))
      in filter (\<lambda>s. s \<noteq> [])
           (map (\<lambda>s. restore placeholders (trim s)) (split_char (CHR ''.'') protectedText)))"

section \<open>Names of persons\<close>

text \<open>
  \<open>s.normalize('NFD').replace(/[\u0300-\u036f]/g, '')\<close>: a letter with a diacritic is
  decomposed into its base letter and combining marks, and the marks are deleted. In
  the range of the model this maps each such letter to its base letter.
\<close>

definition base_letter :: "char \<Rightarrow> char" where
  "base_letter c = (let n = code c in
     if 192 \<le> n \<and> n \<le> 197 then CHR ''A'' else if n = 199 then CHR ''C''
     else if 200 \<le> n \<and> n \<le> 203 then CHR ''E'' else if 204 \<le> n \<and> n \<le> 207 then CHR ''I''
     else if n = 209 then CHR ''N'' else if 210 \<le> n \<and> n \<le> 214 then CHR ''O''
     else if 217 \<le> n \<and> n \<le> 220 then CHR ''U'' else if n = 221 then CHR ''Y''
     else if 224 \<le> n \<and> n \<le> 229 then CHR ''a'' else if n = 231 then CHR ''c''
     else if 232 \<le> n \<and> n \<le> 235 then CHR ''e'' else if 236 \<le> n \<and> n \<le> 239 then CHR ''i''
     else if n = 241 then CHR ''n'' else if 242 \<le> n \<and> n \<le> 246 then CHR ''o''
     else if 249 \<le> n \<and> n \<le> 252 then CHR ''u'' else if n = 253 \<or> n = 255 then CHR ''y''
     else c)"

definition strip_marks :: "string \<Rightarrow> string" where
  "strip_marks s = map base_letter s"

text \<open>\<open>/\s+/g\<close>, \<open>/^(DON|DO\~NA|D\.|D\~NA\.)\s+/gi\<close> and \<open>/\s+(JR\.?|SR\.?|III?|IV)$/gi\<close>\<close>

definition whitespaceRun :: regexp where
  "whitespaceRun = RE spaces1"

definition honorificPrefix :: regexp where
  "honorificPrefix = RE_i (seqs [Bol,
     Grp 1 (alts [Lit ''DON'', Lit (''DO'' @ [CHR 0xD1] @ ''A''), Lit ''D.'',
                  Lit (''D'' @ [CHR 0xD1] @ ''A.'')]),
     spaces1])"

definition generationalSuffix :: regexp where
  "generationalSuffix = RE_i (seqs [spaces1,
     Grp 1 (alts [Seq (Lit ''JR'') (opt (chr (CHR ''.''))), Seq (Lit ''SR'') (opt (chr (CHR ''.''))),
                  Seq (Lit ''II'') (opt (Lit ''I'')), Lit ''IV'']),
     Eol])"

definition normalizeSpanishName :: "string \<Rightarrow> string" where
  "normalizeSpanishName name =
     (if name = [] then []
      else trim (strip_marks (replace_all generationalSuffix []
             (replace_all honorificPrefix []
               (replace_all whitespaceRun '' '' (trim (toUpperCase name)))))))"

definition extractNameParts :: "string \<Rightarrow> string list" where
  "extractNameParts name =
     (let normalized = normalizeSpanishName name;
          parts = filter (\<lambda>w. length w > 1) (split_char (CHR '' '') normalized)
      in if length parts \<le> 3 then parts
         else hd parts # drop (length parts - 2) parts)"

text \<open>
  \<open>areNamesSimilar\<close>, with the threshold as the source passes it (0.5 by default). The
  similarity is a quotient of two small counts, compared with the threshold as a
  real number.
\<close>

definition areNamesSimilarAt :: "real \<Rightarrow> string \<Rightarrow> string \<Rightarrow> bool" where
  "areNamesSimilarAt threshold name1 name2 =
     (if name1 = [] \<or> name2 = [] then False
      else
        (let normalized1 = normalizeSpanishName name1;
             normalized2 = normalizeSpanishName name2
         in if normalized1 = normalized2 then True
            else
              (let parts1 = extractNameParts name1;
                   parts2 = extractNameParts name2
               in if length parts1 < 2 \<or> length parts2 < 2 then normalized1 = normalized2
                  else
                    (let set1 = remdups parts1;
                         set2 = remdups parts2;
                         intersection = filter (\<lambda>x. x \<in> set set2) set1;
                         union = remdups (set1 @ set2);
                         similarity = real (length intersection) / real (length union);
                         lastName1Match = (length parts1 \<ge> 2 \<and> length parts2 \<ge> 2 \<and>
                            parts1 ! (length parts1 - 1) = parts2 ! (length parts2 - 1));
                         lastName2Match = (length parts1 \<ge> 3 \<and> length parts2 \<ge> 3 \<and>
                            parts1 ! (length parts1 - 2) = parts2 ! (length parts2 - 2))
                     in if lastName1Match \<and> lastName2Match then True
                        else similarity \<ge> threshold \<or> length intersection \<ge> 2))))"

definition areNamesSimilar :: "string \<Rightarrow> string \<Rightarrow> bool" where
  "areNamesSimilar name1 name2 = areNamesSimilarAt (1 / 2) name1 name2"

text \<open>
  For stating the decision: the two final tokens agree pairwise, and the Jaccard
  similarity of two token sets.
\<close>

definition surnames_agree :: "string list \<Rightarrow> string list \<Rightarrow> bool" where
  "surnames_agree p1 p2 =
     (3 \<le> length p1 \<and> 3 \<le> length p2 \<and> last p1 = last p2 \<and>
      p1 ! (length p1 - 2) = p2 ! (length p2 - 2))"

definition jaccard :: "string list \<Rightarrow> string list \<Rightarrow> real" where
  "jaccard p1 p2 = real (card (set p1 \<inter> set p2)) / real (card (set p1 \<union> set p2))"

text \<open>
  The decision as the specification words it: equal normalized names match; otherwise
  the significant parts are all tokens of a name of at most three tokens, else the first
  token and the last two, and the names match when the final two tokens agree pairwise,
  or the Jaccard similarity is at least 0.5, or two tokens are shared.
\<close>

definition claimed_parts :: "string \<Rightarrow> string list" where
  "claimed_parts name =
     (let tokens = split_char (CHR '' '') (normalizeSpanishName name)
      in if length tokens \<le> 3 then tokens
         else [hd tokens, tokens ! (length tokens - 2), last tokens])"

definition claimed_similar :: "string \<Rightarrow> string \<Rightarrow> bool" where
  "claimed_similar name1 name2 =
     (normalizeSpanishName name1 = normalizeSpanishName name2 \<or>
      surnames_agree (claimed_parts name1) (claimed_parts name2) \<or>
      1 / 2 \<le> jaccard (claimed_parts name1) (claimed_parts name2) \<or>
      2 \<le> card (set (claimed_parts name1) \<inter> set (claimed_parts name2)))"

section \<open>The temporal state of officers\<close>

text \<open>
  \<open>calculateCurrentOfficerState\<close>. A raw officer record as the service delivers it; a
  field that is absent is \<open>None\<close>.
\<close>

record raw_officer =
  o_name :: "string option"
  o_position :: "string option"
  o_event_type :: "string option"
  o_status :: "string option"
  o_removal_date :: "string option"
  o_date :: "string option"
  o_appointment_date :: "string option"
  o_event_date :: "string option"
  o_company_name :: "string option"

datatype category = Nombramientos | Reelecciones | Ceses_dimisiones | Revocaciones

text \<open>\<open>o.position?.toLowerCase().includes(t)\<close>\<close>

definition position_has :: "raw_officer \<Rightarrow> string \<Rightarrow> bool" where
  "position_has off t = (case o_position off of None \<Rightarrow> False | Some p \<Rightarrow> str_includes (toLowerCase p) t)"

text \<open>The four filters of \<open>officersByCategory\<close>; a record may pass several.\<close>

fun in_category :: "category \<Rightarrow> raw_officer \<Rightarrow> bool" where
  "in_category Nombramientos off =
     (o_event_type off = Some ''nombramientos'' \<or> o_status off = Some ''active'' \<or>
      (o_status off \<noteq> Some ''ceased'' \<and> \<not> truthy (o_removal_date off)))"
| "in_category Reelecciones off =
     (o_event_type off = Some ''reelecciones'' \<or> position_has off ''reelecc'')"
| "in_category Ceses_dimisiones off =
     (o_event_type off = Some ''ceses_dimisiones'' \<or> o_status off = Some ''ceased'' \<or>
      truthy (o_removal_date off) \<or> position_has off ''ces'' \<or> position_has off ''dimis'')"
| "in_category Revocaciones off =
     (o_event_type off = Some ''revocaciones'' \<or> position_has off ''revoc'')"

record event =
  ev_name :: "string option"
  ev_normalizedName :: string
  ev_position :: "string option"
  ev_date :: string
  ev_type :: category
  ev_isAppointment :: bool
  ev_isCessation :: bool
  ev_rawData :: raw_officer

text \<open>\<open>officer.date || officer.appointment_date || officer.event_date || '1900-01-01'\<close>\<close>

fun first_truthy :: "string option list \<Rightarrow> string \<Rightarrow> string" where
  "first_truthy [] d = d"
| "first_truthy (None # vs) d = first_truthy vs d"
| "first_truthy (Some s # vs) d = (if s = [] then first_truthy vs d else s)"

definition eventDate :: "raw_officer \<Rightarrow> string" where
  "eventDate off =
     first_truthy [o_date off, o_appointment_date off, o_event_date off] ''1900-01-01''"

definition make_event :: "category \<Rightarrow> raw_officer \<Rightarrow> event" where
  "make_event cat off =
     \<lparr>ev_name = o_name off,
      ev_normalizedName = (case o_name off of None \<Rightarrow> [] | Some n \<Rightarrow> normalizeSpanishName n),
      ev_position = o_position off,
      ev_date = eventDate off,
      ev_type = cat,
      ev_isAppointment = (cat = Nombramientos \<or> cat = Reelecciones),
      ev_isCessation = (cat = Ceses_dimisiones \<or> cat = Revocaciones),
      ev_rawData = off\<rparr>"

text \<open>The events in the order the two nested loops create them.\<close>

definition all_events :: "raw_officer list \<Rightarrow> event list" where
  "all_events rawOfficers =
     concat (map (\<lambda>cat. map (make_event cat) (filter (in_category cat) rawOfficers))
       [Nombramientos, Reelecciones, Ceses_dimisiones, Revocaciones])"

text \<open>The key of the template literal: an absent position prints as \<open>undefined\<close>.\<close>

definition event_key :: "event \<Rightarrow> string" where
  "event_key e = ev_normalizedName e @ ''_'' @
     (case ev_position e of None \<Rightarrow> ''undefined'' | Some p \<Rightarrow> p)"

text \<open>\<open>officerTimeline\<close>, a map in insertion order, as a list of keys with their events.\<close>

fun add_to_group :: "string \<Rightarrow> event \<Rightarrow> (string \<times> event list) list \<Rightarrow> (string \<times> event list) list" where
  "add_to_group k e [] = [(k, [e])]"
| "add_to_group k e ((k', es) # groups) =
     (if k' = k then (k', es @ [e]) # groups else (k', es) # add_to_group k e groups)"

definition officerTimeline :: "raw_officer list \<Rightarrow> (string \<times> event list) list" where
  "officerTimeline rawOfficers =
     foldl (\<lambda>groups e. add_to_group (event_key e) e groups) [] (all_events rawOfficers)"

text \<open>
  \<open>events.sort((a, b) => new Date(a.date) - new Date(b.date))\<close>. The time value of a
  date text is a parameter \<open>tv\<close> of the model (\<open>None\<close> for a text that is no date: the
  difference is then \<open>NaN\<close>, which the sort reads as 0). The sort is stable; with a
  consistent comparison every stable sort gives the list that insertion gives.
\<close>

definition compare_dates :: "(string \<Rightarrow> int option) \<Rightarrow> event \<Rightarrow> event \<Rightarrow> int" where
  "compare_dates tv a b =
     (case (tv (ev_date a), tv (ev_date b)) of (Some x, Some y) \<Rightarrow> x - y | _ \<Rightarrow> 0)"

fun insert_stable :: "('a \<Rightarrow> 'a \<Rightarrow> int) \<Rightarrow> 'a \<Rightarrow> 'a list \<Rightarrow> 'a list" where
  "insert_stable cmp x [] = [x]"
| "insert_stable cmp x (y # ys) =
     (if cmp y x \<le> 0 then y # insert_stable cmp x ys else x # y # ys)"

definition js_sort :: "('a \<Rightarrow> 'a \<Rightarrow> int) \<Rightarrow> 'a list \<Rightarrow> 'a list" where
  "js_sort cmp xs = foldl (\<lambda>sorted x. insert_stable cmp x sorted) [] xs"

text \<open>
  The fold over the sorted events of one key: \<open>isCurrentlyActive\<close>,
  \<open>latestActiveDate\<close> and \<open>latestAppointmentType\<close>.
\<close>

definition fold_step :: "bool \<times> string option \<times> category option \<Rightarrow> event \<Rightarrow>
    bool \<times> string option \<times> category option" where
  "fold_step st e =
     (if ev_isAppointment e then (True, Some (ev_date e), Some (ev_type e))
      else if ev_isCessation e then (False, fst (snd st), snd (snd st))
      else st)"

definition fold_events :: "event list \<Rightarrow> bool \<times> string option \<times> category option" where
  "fold_events events = foldl fold_step (False, None, None) events"

record position_entry =
  pe_position :: "string option"
  pe_since :: "string option"
  pe_type :: "category option"
  pe_company :: "string option"

record officer_state =
  os_name :: "string option"
  os_positions :: "position_entry list"
  os_history :: "event list"

text \<open>\<open>currentState\<close>, a map from an officer's name, in insertion order.\<close>

fun ensure_officer :: "string option \<Rightarrow> officer_state list \<Rightarrow> officer_state list" where
  "ensure_officer n [] = [\<lparr>os_name = n, os_positions = [], os_history = []\<rparr>]"
| "ensure_officer n (s # ss) = (if os_name s = n then s # ss else s # ensure_officer n ss)"

definition update_officer :: "string option \<Rightarrow> (officer_state \<Rightarrow> officer_state) \<Rightarrow>
    officer_state list \<Rightarrow> officer_state list" where
  "update_officer n f ss = map (\<lambda>s. if os_name s = n then f s else s) (ensure_officer n ss)"

text \<open>
  One key of \<open>officerTimeline\<close>: its events are sorted and folded; an active key adds a
  position to the officer named by the first event, and every key adds its events to
  that officer's history. (A key always has an event.)
\<close>

definition process_group :: "(string \<Rightarrow> int option) \<Rightarrow> officer_state list \<Rightarrow>
    string \<times> event list \<Rightarrow> officer_state list" where
  "process_group tv currentState = (\<lambda>(key, events).
     (let sorted = js_sort (compare_dates tv) events
      in case sorted of
           [] \<Rightarrow> currentState
         | first # others \<Rightarrow>
            (let (isCurrentlyActive, latestActiveDate, latestAppointmentType) = fold_events sorted;
                 officerName = ev_name first;
                 withPosition =
                   (if isCurrentlyActive then
                      update_officer officerName (\<lambda>s. s\<lparr>os_positions := os_positions s @
                        [\<lparr>pe_position = ev_position first, pe_since = latestActiveDate,
                          pe_type = latestAppointmentType,
                          pe_company = o_company_name (ev_rawData first)\<rparr>]\<rparr>) currentState
                    else currentState)
             in update_officer officerName (\<lambda>s. s\<lparr>os_history := os_history s @ sorted\<rparr>)
                  withPosition)))"

record officer_analysis =
  currentOfficers :: "officer_state list"
  allOfficers :: "officer_state list"
  timeline :: "event list"
  totalEvents :: nat

definition calculateCurrentOfficerState :: "(string \<Rightarrow> int option) \<Rightarrow> raw_officer list \<Rightarrow>
    officer_analysis" where
  "calculateCurrentOfficerState tv rawOfficers =
     (let currentState = foldl (process_group tv) [] (officerTimeline rawOfficers)
      in \<lparr>currentOfficers = filter (\<lambda>officer. os_positions officer \<noteq> []) currentState,
          allOfficers = currentState,
          timeline = js_sort (compare_dates tv) (all_events rawOfficers),
          totalEvents = length (all_events rawOfficers)\<rparr>)"

subsection \<open>The matcher, one step at a time\<close>

text \<open>
  The equations of \<open>rmatch\<close> with the continuation and the state applied: a pattern is
  unfolded only where it meets the text.
\<close>

lemma rmatch_Cls: "rmatch ic ml (Cls cs) k s =
    (case m_rest s of [] \<Rightarrow> None
     | c # r \<Rightarrow> if in_cset ic cs c then k (advance c r s) else None)"
  by simp

lemma rmatch_Lit: "rmatch ic ml (Lit w) k s = lit_match ic w k s"
  by simp

lemma rmatch_Eps: "rmatch ic ml Eps k s = k s"
  by simp

lemma rmatch_Seq: "rmatch ic ml (Seq a b) k s = rmatch ic ml a (rmatch ic ml b k) s"
  by simp

lemma rmatch_Alt: "rmatch ic ml (Alt a b) k s =
    (case rmatch ic ml a k s of Some e \<Rightarrow> Some e | None \<Rightarrow> rmatch ic ml b k s)"
  by simp

lemma rmatch_Rep: "rmatch ic ml (Rep mn mx g a) k s =
    rep_loop (mn + length (m_rest s)) (rmatch ic ml a) mn mx g k s"
  by simp

lemma rmatch_Grp: "rmatch ic ml (Grp n a) k s =
    (let p = m_pos s
     in rmatch ic ml a (\<lambda>e. k (set_caps ((n, p, m_pos e) # m_caps e) e)) s)"
  by simp

lemma rmatch_Look: "rmatch ic ml (Look b a) k s =
    (case rmatch ic ml a Some s of
       Some e \<Rightarrow> if b then k (set_caps (m_caps e) s) else None
     | None \<Rightarrow> if b then None else k s)"
  by simp

lemma rmatch_Bol: "rmatch ic ml Bol k s =
    (case m_prevc s of None \<Rightarrow> k s | Some c \<Rightarrow> if ml \<and> is_lterm c then k s else None)"
  by simp

lemma rmatch_Eol: "rmatch ic ml Eol k s =
    (case m_rest s of [] \<Rightarrow> k s | c # cs \<Rightarrow> if ml \<and> is_lterm c then k s else None)"
  by simp

lemma rmatch_Wb: "rmatch ic ml Wb k s = (if at_wordb s then k s else None)"
  by simp

lemmas rmatch_steps = rmatch_Cls rmatch_Lit rmatch_Eps rmatch_Seq rmatch_Alt rmatch_Rep
  rmatch_Grp rmatch_Look rmatch_Bol rmatch_Eol rmatch_Wb

declare rmatch.simps [simp del]
declare all_matches_from.simps [simp del]
declare split_go.simps [simp del]

subsection \<open>Character classes by bits\<close>

text \<open>
  The classes above, decided on the bits of a character (\<open>b0\<close> the lowest): the form in
  which a concrete text is classified.
\<close>

lemma is_digit_Char: "is_digit (Char b0 b1 b2 b3 b4 b5 b6 b7) =
     (\<not> b7 \<and> (\<not> b6 \<and> (b5 \<and> (b4 \<and> (\<not> b3 \<or> (\<not> b2
     \<and> \<not> b1))))))"
  by (simp add: is_digit_def code_def)

lemma is_space_Char: "is_space (Char b0 b1 b2 b3 b4 b5 b6 b7) =
     (if b7 then (\<not> b6 \<and> (b5 \<and> (\<not> b4 \<and> (\<not> b3 \<and> (\<not>
     b2 \<and> (\<not> b1 \<and> \<not> b0)))))) else (\<not> b6 \<and> (if b5 then (\<not>
     b4 \<and> (\<not> b3 \<and> (\<not> b2 \<and> (\<not> b1 \<and> \<not> b0)))) else
     (\<not> b4 \<and> (b3 \<and> (if b2 then \<not> b1 else (b1 \<or> b0)))))))"
  by (simp add: is_space_def code_def)

lemma is_word_Char: "is_word (Char b0 b1 b2 b3 b4 b5 b6 b7) =
     (\<not> b7 \<and> (if b6 then (if b5 then (if b4 then (\<not> b3 \<or> (\<not> b2
     \<and> (\<not> b1 \<or> \<not> b0))) else (b3 \<or> (b2 \<or> (b1 \<or> b0)))) else
     (if b4 then (\<not> b3 \<or> (if b2 then (b1 \<and> b0) else (\<not> b1 \<or> \<not>
     b0))) else (b3 \<or> (b2 \<or> (b1 \<or> b0))))) else (b5 \<and> (b4 \<and> (\<not> b3
     \<or> (\<not> b2 \<and> \<not> b1))))))"
  by (simp add: is_word_def is_digit_def code_def)

lemma is_lterm_Char: "is_lterm (Char b0 b1 b2 b3 b4 b5 b6 b7) =
     (\<not> b7 \<and> (\<not> b6 \<and> (\<not> b5 \<and> (\<not> b4 \<and> (b3 \<and> (if
     b2 then (\<not> b1 \<and> b0) else (b1 \<and> \<not> b0)))))))"
  by (simp add: is_lterm_def code_def)

lemma is_lower_Char: "is_lower (Char b0 b1 b2 b3 b4 b5 b6 b7) =
     (if b7 then (b6 \<and> (b5 \<and> (\<not> b4 \<or> (\<not> b2 \<or> (\<not> b1 \<or>
     \<not> b0))))) else (b6 \<and> (b5 \<and> (if b4 then (\<not> b3 \<or> (\<not> b2
     \<and> (\<not> b1 \<or> \<not> b0))) else (b3 \<or> (b2 \<or> (b1 \<or> b0)))))))"
  by (simp add: is_lower_def code_def)

lemma is_upper_Char: "is_upper (Char b0 b1 b2 b3 b4 b5 b6 b7) =
     (if b7 then (b6 \<and> (\<not> b5 \<and> (\<not> b4 \<or> (\<not> b2 \<or> (\<not> b1
     \<or> \<not> b0))))) else (b6 \<and> (\<not> b5 \<and> (if b4 then (\<not> b3 \<or>
     (\<not> b2 \<and> (\<not> b1 \<or> \<not> b0))) else (b3 \<or> (b2 \<or> (b1 \<or>
     b0)))))))"
  by (simp add: is_upper_def code_def)

lemma sharp_s_Char: "(code (Char b0 b1 b2 b3 b4 b5 b6 b7) = 223) =
     (b7 \<and> b6 \<and> \<not> b5 \<and> b4 \<and> b3 \<and> b2 \<and> b1 \<and> b0)"
  by (simp add: code_def)

lemmas char_eval = is_digit_Char is_space_Char is_word_Char is_lterm_Char is_lower_Char
  is_upper_Char sharp_s_Char to_upper_char_def to_lower_char_def

text \<open>The definitions a concrete run unfolds.\<close>


lemmas str_eval = toUpperCase_def toLowerCase_def trim_def indexOf_def split_char_def
  padStart0_def show_nat_def truthy_def

lemmas rx_eval = rmatch_steps advance_def set_caps_def at_wordb_def char_before_def star_def plus_def opt_def
  lazy_star_def lazy_plus_def chr_def spaces_def spaces1_def RE_def RE_i_def RE_m_def
  group_def match_at_def re_exec_def re_test_def str_match_def re_test_g_def
  all_matches_from.simps all_matches_def replace_all_def replace_first_def
  split_go.simps split_re_def replace_str_def

section \<open>Dates: proofs\<close>

lemmas date_eval = digit_val_def is_hex_digit_def parseInt_def dateSeparator_def
  formatSpanishDate_def













section \<open>The segmenter: runs\<close>

lemmas seg_eval = abbreviations_def abbrevPattern_def datePattern_def splitRegistryPattern_def
  decimalPattern_def placeholder_def protect_def restore_def smartSplitBormeEntry_def

section \<open>Names of persons: proofs\<close>

lemmas name_eval = base_letter_def strip_marks_def whitespaceRun_def honorificPrefix_def
  generationalSuffix_def normalizeSpanishName_def extractNameParts_def areNamesSimilarAt_def
  areNamesSimilar_def

lemma normalize_GARCIA: "normalizeSpanishName ''GARCIA'' = ''GARCIA''"
  by (simp add: name_eval rx_eval char_eval str_eval Let_def code_def split del: if_split)

lemma normalize_GARCIA_LOPEZ: "normalizeSpanishName ''GARCIA LOPEZ'' = ''GARCIA LOPEZ''"
  by (simp add: name_eval rx_eval char_eval str_eval Let_def code_def split del: if_split)

lemma normalize_GOSLIN4:
  "normalizeSpanishName ''GOSLIN COX BRUCE RIDGWAY'' = ''GOSLIN COX BRUCE RIDGWAY''"
  by (simp add: name_eval rx_eval char_eval str_eval Let_def code_def split del: if_split)

lemma normalize_GOSLIN3:
  "normalizeSpanishName ''GOSLIN BRUCE RIDGWAY'' = ''GOSLIN BRUCE RIDGWAY''"
  by (simp add: name_eval rx_eval char_eval str_eval Let_def code_def split del: if_split)

lemma intersection_card:
  "length (filter (\<lambda>x. x \<in> set b) (remdups a)) = card (set a \<inter> set b)"
proof -
  have "length (filter (\<lambda>x. x \<in> set b) (remdups a)) = card ({x. x \<in> set b} \<inter> set (remdups a))"
    by (rule distinct_length_filter) simp
  also have "{x. x \<in> set b} \<inter> set (remdups a) = set a \<inter> set b" by auto
  finally show ?thesis .
qed

lemma union_card: "length (remdups (remdups a @ remdups b)) = card (set a \<union> set b)"
  by (simp add: length_remdups_card_conv)

lemma nth_last: "xs \<noteq> [] \<Longrightarrow> xs ! (length xs - 1) = last xs"
  by (simp add: last_conv_nth)

lemma similar_parts:
  assumes "2 \<le> length p1" "2 \<le> length p2"
  shows "(let set1 = remdups p1; set2 = remdups p2;
              intersection = filter (\<lambda>x. x \<in> set set2) set1;
              union = remdups (set1 @ set2);
              similarity = real (length intersection) / real (length union);
              lastName1Match = (length p1 \<ge> 2 \<and> length p2 \<ge> 2 \<and>
                 p1 ! (length p1 - 1) = p2 ! (length p2 - 1));
              lastName2Match = (length p1 \<ge> 3 \<and> length p2 \<ge> 3 \<and>
                 p1 ! (length p1 - 2) = p2 ! (length p2 - 2))
          in if lastName1Match \<and> lastName2Match then True
             else similarity \<ge> 1 / 2 \<or> length intersection \<ge> 2) =
         (surnames_agree p1 p2 \<or> 1 / 2 \<le> jaccard p1 p2 \<or> 2 \<le> card (set p1 \<inter> set p2))"
proof -
  have ne: "p1 \<noteq> []" "p2 \<noteq> []" using assms by auto
  have i: "length (filter (\<lambda>x. x \<in> set (remdups p2)) (remdups p1)) = card (set p1 \<inter> set p2)"
    using intersection_card[of p2 p1] by simp
  have sa: "surnames_agree p1 p2 =
      ((length p1 \<ge> 2 \<and> length p2 \<ge> 2 \<and> p1 ! (length p1 - 1) = p2 ! (length p2 - 1)) \<and>
       (length p1 \<ge> 3 \<and> length p2 \<ge> 3 \<and> p1 ! (length p1 - 2) = p2 ! (length p2 - 2)))"
    using assms nth_last[OF ne(1)] nth_last[OF ne(2)] by (auto simp: surnames_agree_def)
  show ?thesis
    unfolding Let_def i union_card sa jaccard_def by auto
qed

text \<open>
  C9, as the code decides it. Two names match exactly when neither is empty and either
  their normalized forms are equal, or both have at least two significant parts and the
  final two parts agree pairwise (both names having at least three), or the Jaccard
  similarity of the part sets is at least 0.5, or two parts are shared. With fewer than
  two significant parts in either name only equal normalized forms match. The names
  GOSLIN COX BRUCE RIDGWAY and GOSLIN BRUCE RIDGWAY match.
\<close>

theorem areNamesSimilar_rule:
  "areNamesSimilar n1 n2 =
     (n1 \<noteq> [] \<and> n2 \<noteq> [] \<and>
      (normalizeSpanishName n1 = normalizeSpanishName n2 \<or>
       2 \<le> length (extractNameParts n1) \<and> 2 \<le> length (extractNameParts n2) \<and>
       (surnames_agree (extractNameParts n1) (extractNameParts n2) \<or>
        1 / 2 \<le> jaccard (extractNameParts n1) (extractNameParts n2) \<or>
        2 \<le> card (set (extractNameParts n1) \<inter> set (extractNameParts n2))))) \<and>
   areNamesSimilar ''GOSLIN COX BRUCE RIDGWAY'' ''GOSLIN BRUCE RIDGWAY''"
proof
  show "areNamesSimilar n1 n2 =
     (n1 \<noteq> [] \<and> n2 \<noteq> [] \<and>
      (normalizeSpanishName n1 = normalizeSpanishName n2 \<or>
       2 \<le> length (extractNameParts n1) \<and> 2 \<le> length (extractNameParts n2) \<and>
       (surnames_agree (extractNameParts n1) (extractNameParts n2) \<or>
        1 / 2 \<le> jaccard (extractNameParts n1) (extractNameParts n2) \<or>
        2 \<le> card (set (extractNameParts n1) \<inter> set (extractNameParts n2)))))"
  proof (cases "n1 = [] \<or> n2 = [] \<or> normalizeSpanishName n1 = normalizeSpanishName n2")
    case True
    then show ?thesis
      by (auto simp: areNamesSimilar_def areNamesSimilarAt_def Let_def)
  next
    case False
    show ?thesis
    proof (cases "length (extractNameParts n1) < 2 \<or> length (extractNameParts n2) < 2")
      case True
      with False show ?thesis
        by (auto simp: areNamesSimilar_def areNamesSimilarAt_def Let_def)
    next
      case F2: False
      then have ge: "2 \<le> length (extractNameParts n1)" "2 \<le> length (extractNameParts n2)"
        by auto
      have "areNamesSimilar n1 n2 =
        (surnames_agree (extractNameParts n1) (extractNameParts n2) \<or>
         1 / 2 \<le> jaccard (extractNameParts n1) (extractNameParts n2) \<or>
         2 \<le> card (set (extractNameParts n1) \<inter> set (extractNameParts n2)))"
        using False F2 similar_parts[OF ge]
        by (simp add: areNamesSimilar_def areNamesSimilarAt_def Let_def)
      then show ?thesis using False ge by auto
    qed
  qed
  show "areNamesSimilar ''GOSLIN COX BRUCE RIDGWAY'' ''GOSLIN BRUCE RIDGWAY''"
    by (simp add: areNamesSimilar_def areNamesSimilarAt_def extractNameParts_def
        normalize_GOSLIN4 normalize_GOSLIN3 str_eval Let_def)
qed

text \<open>
  The decision as the specification words it has no guard on names of one part:
  GARCIA and GARCIA LOPEZ share one token of two, a Jaccard similarity of 0.5, and
  match by those words; the code requires two significant parts in each name and
  answers no.
\<close>

theorem areNamesSimilar_counterexample:
  "claimed_similar ''GARCIA'' ''GARCIA LOPEZ'' \<and> \<not> areNamesSimilar ''GARCIA'' ''GARCIA LOPEZ''"
proof
  have i: "set [''GARCIA''] \<inter> set [''GARCIA'', ''LOPEZ''] = {''GARCIA''}" by auto
  have u: "set [''GARCIA''] \<union> set [''GARCIA'', ''LOPEZ''] = {''GARCIA'', ''LOPEZ''}" by auto
  have c2: "card {''GARCIA'', ''LOPEZ''} = 2" by simp
  have "jaccard [''GARCIA''] [''GARCIA'', ''LOPEZ''] = 1 / 2"
    unfolding jaccard_def i u c2 by simp
  then show "claimed_similar ''GARCIA'' ''GARCIA LOPEZ''"
    by (simp add: claimed_similar_def claimed_parts_def normalize_GARCIA normalize_GARCIA_LOPEZ
        str_eval Let_def)
  show "\<not> areNamesSimilar ''GARCIA'' ''GARCIA LOPEZ''"
    by (simp add: areNamesSimilar_def areNamesSimilarAt_def extractNameParts_def
        normalize_GARCIA normalize_GARCIA_LOPEZ str_eval Let_def)
qed

theorem areNamesSimilar_rule_witness:
  "\<not> areNamesSimilar ''GARCIA'' ''GARCIA LOPEZ'' \<and>
   length (extractNameParts ''GARCIA'') = 1 \<and>
   areNamesSimilar ''GOSLIN COX BRUCE RIDGWAY'' ''GOSLIN BRUCE RIDGWAY''"
  using areNamesSimilar_rule[of "''GARCIA''" "''GARCIA LOPEZ''"]
  by (simp add: extractNameParts_def normalize_GARCIA normalize_GARCIA_LOPEZ str_eval Let_def)

section \<open>The segmenter: the nested case\<close>

text \<open>
  C2. The registry data of the source's own comment, \<open>S 8 , H A 200035, I/A 1 (29.08.25).\<close>:
  the date inside it is protected first, as placeholder 0, and the registry data around
  it second, as placeholder 1. The restoring loop meets placeholder 0 before placeholder
  1 has been put back, so the date is never restored: the section comes out with the
  placeholder's text in place of the date.
\<close>

theorem smartSplit_nested_date_lost:
  "smartSplitBormeEntry ''S 8 , H A 200035, I/A 1 (29.08.25).'' =
     [''S 8 , H A 200035, I/A 1 (###PLACEHOLDER0###).'']"
  by (simp add: seg_eval rx_eval char_eval str_eval Let_def code_def split del: if_split)

end
